theory Spec2Isabelle
  imports Main
begin

section \<open>Data model\<close>

text \<open>
  A Python \<open>str\<close> is a sequence of Unicode code points; \<open>str.strip()\<close> is decided per
  code point, so a string is modelled as the list of its code points.
\<close>

type_synonym py_str = "nat list"

definition codepoints :: "string \<Rightarrow> py_str" where
  "codepoints s = map of_char s"

text \<open>
  One row of the table \<open>users\<close> created by \<open>UserRepository._init_schema\<close>. The two
  timestamp columns hold what \<open>CURRENT_TIMESTAMP\<close> gives at the time of the write,
  which the caller of the model supplies as a number. Integers are unbounded, as Python's
  are; SQLite stores 64-bit integers, and the model says nothing about values outside that
  range.
\<close>

record user_row =
  tg_id :: int
  username :: "py_str option"
  first_name :: "py_str option"
  last_name :: "py_str option"
  balance :: int
  total_requests :: int
  created_at :: nat
  updated_at :: nat

text \<open>
  The table is the list of its rows in insertion order. That \<open>tg_id\<close> is the primary key
  is not built into the type: it is the invariant \<open>primary_key\<close>, which the statements
  of the program have to preserve.
\<close>

type_synonym users_table = "user_row list"

definition primary_key :: "users_table \<Rightarrow> bool" where
  "primary_key t = distinct (map tg_id t)"

definition accounts :: "users_table \<Rightarrow> int \<Rightarrow> user_row list" where
  "accounts t i = filter (\<lambda>r. tg_id r = i) t"

text \<open>\<open>config.bot.default_free_requests\<close> of \<open>BotConfig\<close>.\<close>

definition default_free_requests :: int where
  "default_free_requests = 3"

text \<open>
  \<open>DatabaseError\<close> is raised at four places: by \<open>_get_connection\<close>, by \<open>get_cursor\<close>
  (after the rollback), by \<open>create_user\<close> and by \<open>handle_text_message\<close>.
\<close>

datatype DatabaseError =
    Connection_failed
  | Operation_failed
  | Failed_to_create_user
  | Failed_to_deduct_balance

text \<open>
  What SQLite does during one use of \<open>get_cursor\<close>: nothing unusual, \<open>sqlite3.connect\<close>
  raises \<open>sqlite3.Error\<close>, or a statement or the commit raises \<open>sqlite3.Error\<close>.
\<close>

datatype sqlite_behaviour = Sqlite_ok | Connect_raises | Statement_raises

text \<open>
  The calls that leave the process, in the order they are made. Every modelled operation
  records its own call.
\<close>

datatype reply_text =
    Empty_message_text
  | Balance_warning_text int
  | Processing_text
  | Response_text py_str int
  | OpenAI_error_text py_str
  | Request_error_text

datatype call =
    Get_user int
  | Create_user int
  | Update_balance int int
  | ChatCompletion_create py_str
  | Send_message int reply_text
  | Edit_message_text reply_text int nat

record world =
  users :: users_table
  calls :: "call list"

definition record_call :: "call \<Rightarrow> world \<Rightarrow> world" where
  "record_call c w = w\<lparr>calls := calls w @ [c]\<rparr>"

section \<open>Ledger store: \<open>database.py\<close>\<close>

subsection \<open>The three SQL statements\<close>

text \<open>\<open>SELECT * FROM users WHERE tg_id = ?\<close> followed by \<open>fetchone()\<close>.\<close>

definition select_user :: "users_table \<Rightarrow> int \<Rightarrow> user_row option" where
  "select_user t i = find (\<lambda>r. tg_id r = i) t"

text \<open>
  \<open>INSERT OR IGNORE INTO users (tg_id, username, first_name, last_name, balance)\<close>:
  the row is skipped when it would violate the primary key; \<open>total_requests\<close> and the
  timestamps take their column defaults.
\<close>

definition insert_or_ignore ::
  "users_table \<Rightarrow> int \<Rightarrow> py_str option \<Rightarrow> py_str option \<Rightarrow> py_str option \<Rightarrow> int \<Rightarrow> nat
     \<Rightarrow> users_table" where
  "insert_or_ignore t i un fn ln b now =
     (if list_ex (\<lambda>r. tg_id r = i) t then t
      else t @ [\<lparr>tg_id = i, username = un, first_name = fn, last_name = ln, balance = b,
                 total_requests = 0, created_at = now, updated_at = now\<rparr>])"

text \<open>
  \<open>UPDATE users SET balance = balance + ?1, updated_at = CURRENT_TIMESTAMP,
  total_requests = total_requests + ABS(?2) WHERE tg_id = ?3 AND balance + ?4 >= 0\<close>,
  with the number of rows it changed (\<open>cursor.rowcount\<close>).
\<close>

definition update_matches :: "int \<Rightarrow> int \<Rightarrow> user_row \<Rightarrow> bool" where
  "update_matches p3 p4 r = (tg_id r = p3 \<and> balance r + p4 \<ge> 0)"

definition update_users ::
  "users_table \<Rightarrow> int \<Rightarrow> int \<Rightarrow> int \<Rightarrow> int \<Rightarrow> nat \<Rightarrow> users_table \<times> nat" where
  "update_users t p1 p2 p3 p4 now =
     (map (\<lambda>r. if update_matches p3 p4 r
                then r\<lparr>balance := balance r + p1, updated_at := now,
                       total_requests := total_requests r + \<bar>p2\<bar>\<rparr>
                else r) t,
      length (filter (update_matches p3 p4) t))"

subsection \<open>\<open>DatabaseConnection.get_cursor\<close>\<close>

text \<open>
  The body runs in a transaction: it is committed when the body returns, rolled back when
  SQLite raises, and abandoned when the body raises \<open>DatabaseError\<close> itself. In the last
  two cases the table is the one before the call.
\<close>

definition get_cursor ::
  "sqlite_behaviour \<Rightarrow> (users_table \<Rightarrow> DatabaseError + 'a \<times> users_table) \<Rightarrow> world
     \<Rightarrow> (DatabaseError + 'a) \<times> world" where
  "get_cursor s body w =
     (case s of
        Connect_raises \<Rightarrow> (Inl Connection_failed, w)
      | Statement_raises \<Rightarrow> (Inl Operation_failed, w)
      | Sqlite_ok \<Rightarrow>
          (case body (users w) of
             Inl e \<Rightarrow> (Inl e, w)
           | Inr (x, t') \<Rightarrow> (Inr x, w\<lparr>users := t'\<rparr>)))"

subsection \<open>\<open>UserRepository\<close>\<close>

definition get_user ::
  "sqlite_behaviour \<Rightarrow> world \<Rightarrow> int \<Rightarrow> (DatabaseError + user_row option) \<times> world" where
  "get_user s w i =
     get_cursor s (\<lambda>t. Inr (select_user t i, t)) (record_call (Get_user i) w)"

definition create_user ::
  "sqlite_behaviour \<Rightarrow> nat \<Rightarrow> world \<Rightarrow> int \<Rightarrow> py_str option \<Rightarrow> py_str option \<Rightarrow> py_str option
     \<Rightarrow> (DatabaseError + user_row) \<times> world" where
  "create_user s now w i un fn ln =
     get_cursor s
       (\<lambda>t. let t' = insert_or_ignore t i un fn ln default_free_requests now in
             case select_user t' i of
               None \<Rightarrow> Inl Failed_to_create_user
             | Some r \<Rightarrow> Inr (r, t'))
       (record_call (Create_user i) w)"

definition update_balance ::
  "sqlite_behaviour \<Rightarrow> nat \<Rightarrow> world \<Rightarrow> int \<Rightarrow> int \<Rightarrow> (DatabaseError + bool) \<times> world" where
  "update_balance s now w i delta =
     get_cursor s
       (\<lambda>t. let (t', rowcount) =
                   update_users t delta (if delta < 0 then - delta else 0) i delta now
             in Inr (rowcount > 0, t'))
       (record_call (Update_balance i delta) w)"

subsection \<open>Other threads\<close>

text \<open>
  The bot handles messages on several threads, each with its own connection, and every
  ledger operation is a transaction of its own. Between two operations of one handler the
  other handlers may therefore commit writes. An environment says what they commit at the
  two places where a handler has a ledger operation behind it and another one ahead, and
  what SQLite, the clock, the completion provider and the chat transport do during this
  run. With \<open>id\<close> at both places the handler runs alone.
\<close>

datatype provider_behaviour =
    Returns "py_str option list"
  | Raises_AuthenticationError
  | Raises_RateLimitError
  | Raises_other_openai_error
  | Raises_other_exception

record environment =
  get_user_sqlite :: sqlite_behaviour
  create_user_sqlite :: sqlite_behaviour
  update_balance_sqlite :: sqlite_behaviour
  others_before_create :: "users_table \<Rightarrow> users_table"
  others_during_completion :: "users_table \<Rightarrow> users_table"
  create_time :: nat
  update_time :: nat
  provider :: "py_str \<Rightarrow> provider_behaviour"
  processing_message_id :: nat

definition concurrently :: "(users_table \<Rightarrow> users_table) \<Rightarrow> world \<Rightarrow> world" where
  "concurrently f w = w\<lparr>users := f (users w)\<rparr>"

definition alone :: environment where
  "alone = \<lparr>get_user_sqlite = Sqlite_ok, create_user_sqlite = Sqlite_ok,
            update_balance_sqlite = Sqlite_ok, others_before_create = id,
            others_during_completion = id, create_time = 0, update_time = 0,
            provider = (\<lambda>_. Returns []), processing_message_id = 0\<rparr>"

subsection \<open>\<open>DatabaseManager\<close>\<close>

definition get_or_create_user ::
  "environment \<Rightarrow> world \<Rightarrow> int \<Rightarrow> py_str option \<Rightarrow> py_str option \<Rightarrow> py_str option
     \<Rightarrow> (DatabaseError + user_row) \<times> world" where
  "get_or_create_user e w i un fn ln =
     (case get_user (get_user_sqlite e) w i of
        (Inl err, w1) \<Rightarrow> (Inl err, w1)
      | (Inr (Some user), w1) \<Rightarrow> (Inr user, w1)
      | (Inr None, w1) \<Rightarrow>
          create_user (create_user_sqlite e) (create_time e)
            (concurrently (others_before_create e) w1) i un fn ln)"

definition ensure_sufficient_balance ::
  "environment \<Rightarrow> world \<Rightarrow> int \<Rightarrow> int \<Rightarrow> (DatabaseError + bool) \<times> world" where
  "ensure_sufficient_balance e w i cost =
     update_balance (update_balance_sqlite e) (update_time e) w i (- cost)"

section \<open>AI gateway: \<open>OpenAIService\<close> in \<open>bot.py\<close>\<close>

text \<open>
  The code points for which \<open>str.isspace\<close> holds; \<open>str.strip()\<close> removes them from both
  ends.
\<close>

definition py_isspace :: "nat \<Rightarrow> bool" where
  "py_isspace c =
     ((9 \<le> c \<and> c \<le> 13) \<or> (28 \<le> c \<and> c \<le> 32) \<or> c = 133 \<or> c = 160 \<or> c = 5760
      \<or> (8192 \<le> c \<and> c \<le> 8202) \<or> c = 8232 \<or> c = 8233 \<or> c = 8239 \<or> c = 8287
      \<or> c = 12288)"

definition strip :: "py_str \<Rightarrow> py_str" where
  "strip s = rev (dropWhile py_isspace (rev (dropWhile py_isspace s)))"

text \<open>
  The module's own exception class, and the exceptions that can be raised inside the
  \<open>try\<close> block of \<open>generate_response\<close>. The module's \<open>OpenAIError\<close> derives from
  \<open>Exception\<close>, not from \<open>openai.error.OpenAIError\<close>.
\<close>

datatype OpenAIError = OpenAIError string

datatype raised_in_try =
    Openai_AuthenticationError
  | Openai_RateLimitError
  | Openai_OpenAIError
  | Bot_OpenAIError string
  | Other_Exception

text \<open>
  The \<open>try\<close> block: the call of the provider, the test of \<open>response.choices\<close>, and
  \<open>response.choices[0].message.content.strip()\<close>, which raises \<open>AttributeError\<close> when the
  content is \<open>None\<close>.
\<close>

definition generate_response_try :: "provider_behaviour \<Rightarrow> raised_in_try + py_str" where
  "generate_response_try p =
     (case p of
        Raises_AuthenticationError \<Rightarrow> Inl Openai_AuthenticationError
      | Raises_RateLimitError \<Rightarrow> Inl Openai_RateLimitError
      | Raises_other_openai_error \<Rightarrow> Inl Openai_OpenAIError
      | Raises_other_exception \<Rightarrow> Inl Other_Exception
      | Returns choices \<Rightarrow>
          (case choices of
             [] \<Rightarrow> Inl (Bot_OpenAIError ''Empty response from OpenAI'')
           | content # _ \<Rightarrow>
               (case content of
                  None \<Rightarrow> Inl Other_Exception
                | Some s \<Rightarrow> Inr (strip s))))"

text \<open>The four \<open>except\<close> clauses, in the order of the source; the last is \<open>except Exception\<close>.\<close>

fun generate_response_except :: "raised_in_try \<Rightarrow> OpenAIError" where
  "generate_response_except Openai_AuthenticationError =
     OpenAIError ''Invalid API key configuration''"
| "generate_response_except Openai_RateLimitError =
     OpenAIError ''Service temporarily unavailable due to high load''"
| "generate_response_except Openai_OpenAIError =
     OpenAIError ''AI service is currently unavailable''"
| "generate_response_except _ = OpenAIError ''Internal service error''"

definition generate_response ::
  "environment \<Rightarrow> world \<Rightarrow> py_str \<Rightarrow> (OpenAIError + py_str) \<times> world" where
  "generate_response e w prompt =
     (case generate_response_try (provider e prompt) of
        Inl x \<Rightarrow> (Inl (generate_response_except x), record_call (ChatCompletion_create prompt) w)
      | Inr text \<Rightarrow> (Inr text, record_call (ChatCompletion_create prompt) w))"

section \<open>Request orchestrator: \<open>MessageHandler.handle_text_message\<close>\<close>

record message =
  from_user_id :: int
  chat_id :: int
  message_text :: py_str

text \<open>The two calls of the chat transport. The transport is assumed not to raise.\<close>

definition send_message :: "world \<Rightarrow> int \<Rightarrow> reply_text \<Rightarrow> world" where
  "send_message w chat txt = record_call (Send_message chat txt) w"

definition edit_message_text :: "world \<Rightarrow> reply_text \<Rightarrow> int \<Rightarrow> nat \<Rightarrow> world" where
  "edit_message_text w txt chat mid = record_call (Edit_message_text txt chat mid) w"

definition build_response_text :: "py_str \<Rightarrow> int \<Rightarrow> reply_text" where
  "build_response_text response remaining_balance = Response_text response remaining_balance"

definition send_balance_warning :: "world \<Rightarrow> int \<Rightarrow> int \<Rightarrow> world" where
  "send_balance_warning w chat b = send_message w chat (Balance_warning_text b)"

text \<open>
  The exceptions the two \<open>except\<close> clauses of the handler catch, and the one that leaves
  the handler: a clause that reads \<open>processing_msg\<close> before the \<open>try\<close> block has
  assigned it raises \<open>UnboundLocalError\<close>.
\<close>

datatype caught = Caught_OpenAIError OpenAIError | Caught_DatabaseError DatabaseError

datatype uncaught = UnboundLocalError

text \<open>
  The \<open>try\<close> block. It returns how it ended, the local variable \<open>processing_msg\<close>
  (\<open>None\<close> while unassigned, else the id of the message sent) and the world.
\<close>

definition handle_text_message_try ::
  "environment \<Rightarrow> message \<Rightarrow> py_str \<Rightarrow> world \<Rightarrow> (caught + unit) \<times> nat option \<times> world" where
  "handle_text_message_try e m user_text w =
     (case get_or_create_user e w (from_user_id m) None None None of
        (Inl err, w1) \<Rightarrow> (Inl (Caught_DatabaseError err), None, w1)
      | (Inr user, w1) \<Rightarrow>
          if balance user \<le> 0
          then (Inr (), None, send_balance_warning w1 (chat_id m) (balance user))
          else
            let w2 = send_message w1 (chat_id m) Processing_text;
                processing_msg = Some (processing_message_id e)
            in (case generate_response e w2 user_text of
                  (Inl err, w3) \<Rightarrow>
                    (Inl (Caught_OpenAIError err), processing_msg,
                     concurrently (others_during_completion e) w3)
                | (Inr response, w3) \<Rightarrow>
                    (case ensure_sufficient_balance e
                            (concurrently (others_during_completion e) w3)
                            (from_user_id m) 1 of
                       (Inl err, w4) \<Rightarrow> (Inl (Caught_DatabaseError err), processing_msg, w4)
                     | (Inr True, w4) \<Rightarrow>
                         (Inr (), processing_msg,
                          edit_message_text w4
                            (build_response_text response (balance user - 1))
                            (chat_id m) (processing_message_id e))
                     | (Inr False, w4) \<Rightarrow>
                         (Inl (Caught_DatabaseError Failed_to_deduct_balance),
                          processing_msg, w4))))"

definition handle_text_message ::
  "environment \<Rightarrow> message \<Rightarrow> world \<Rightarrow> (uncaught + unit) \<times> world" where
  "handle_text_message e m w =
     (let user_text = strip (message_text m) in
      if user_text = []
      then (Inr (), send_message w (chat_id m) Empty_message_text)
      else
        (case handle_text_message_try e m user_text w of
           (Inr u, processing_msg, w') \<Rightarrow> (Inr (), w')
         | (Inl (Caught_OpenAIError (OpenAIError str_e)), processing_msg, w') \<Rightarrow>
             (case processing_msg of
                None \<Rightarrow> (Inl UnboundLocalError, w')
              | Some mid \<Rightarrow>
                  (Inr (), edit_message_text w' (OpenAI_error_text (codepoints str_e))
                             (chat_id m) mid))
         | (Inl (Caught_DatabaseError err), processing_msg, w') \<Rightarrow>
             (case processing_msg of
                None \<Rightarrow> (Inl UnboundLocalError, w')
              | Some mid \<Rightarrow>
                  (Inr (), edit_message_text w' Request_error_text (chat_id m) mid))))"

section \<open>Sequences of ledger operations and concrete inputs\<close>

text \<open>
  The balance invariant of the table, and a run of \<open>update_balance\<close> calls, each with its
  own SQLite behaviour, time, user and delta, applied one after the other.
\<close>

definition non_negative :: "users_table \<Rightarrow> bool" where
  "non_negative t = list_all (\<lambda>r. 0 \<le> balance r) t"

fun apply_adjustments :: "(sqlite_behaviour \<times> nat \<times> int \<times> int) list \<Rightarrow> world \<Rightarrow> world" where
  "apply_adjustments [] w = w"
| "apply_adjustments ((s, now, i, delta) # as) w =
     apply_adjustments as (snd (update_balance s now w i delta))"

text \<open>A row as \<open>create_user\<close> would have inserted it at time 0, and a world with no calls yet.\<close>

definition account :: "int \<Rightarrow> int \<Rightarrow> user_row" where
  "account i b = \<lparr>tg_id = i, username = None, first_name = None, last_name = None,
                  balance = b, total_requests = 0, created_at = 0, updated_at = 0\<rparr>"

definition ledger :: "user_row list \<Rightarrow> world" where
  "ledger t = \<lparr>users = t, calls = []\<rparr>"

text \<open>The row that \<open>create_user\<close> inserts for a user the table does not hold yet.\<close>

definition new_row ::
  "int \<Rightarrow> py_str option \<Rightarrow> py_str option \<Rightarrow> py_str option \<Rightarrow> nat \<Rightarrow> user_row" where
  "new_row i un fn ln now =
     \<lparr>tg_id = i, username = un, first_name = fn, last_name = ln,
      balance = default_free_requests, total_requests = 0, created_at = now, updated_at = now\<rparr>"

text \<open>
  What another thread commits between two operations of the handler under study: a
  \<open>create_user\<close> for the same user, or a debit of one request.
\<close>

definition other_caller_creates :: "nat \<Rightarrow> int \<Rightarrow> users_table \<Rightarrow> users_table" where
  "other_caller_creates now i t =
     users (snd (create_user Sqlite_ok now (ledger t) i None None None))"

definition other_handler_debits :: "nat \<Rightarrow> int \<Rightarrow> users_table \<Rightarrow> users_table" where
  "other_handler_debits now i t = users (snd (update_balance Sqlite_ok now (ledger t) i (- 1)))"

text \<open>
  The calls a run has added to the log, kinds of calls, and the world in which the handler
  issues its debit: the one after account resolution, with the processing message sent, the
  completion requested and the writes of the other threads committed.
\<close>

definition calls_since :: "world \<Rightarrow> world \<Rightarrow> call list" where
  "calls_since w w' = drop (length (calls w)) (calls w')"

fun is_ledger_call :: "call \<Rightarrow> bool" where
  "is_ledger_call (Get_user _) = True"
| "is_ledger_call (Create_user _) = True"
| "is_ledger_call (Update_balance _ _) = True"
| "is_ledger_call _ = False"

fun is_debit_call :: "call \<Rightarrow> bool" where
  "is_debit_call (Update_balance _ _) = True"
| "is_debit_call _ = False"

fun is_gateway_call :: "call \<Rightarrow> bool" where
  "is_gateway_call (ChatCompletion_create _) = True"
| "is_gateway_call _ = False"

fun delivers_response :: "call \<Rightarrow> bool" where
  "delivers_response (Send_message _ (Response_text _ _)) = True"
| "delivers_response (Edit_message_text (Response_text _ _) _ _) = True"
| "delivers_response _ = False"

definition awaiting_debit :: "environment \<Rightarrow> message \<Rightarrow> world \<Rightarrow> world" where
  "awaiting_debit e m w1 =
     concurrently (others_during_completion e)
       (record_call (ChatCompletion_create (strip (message_text m)))
          (send_message w1 (chat_id m) Processing_text))"

text \<open>Messages and environments used as concrete inputs.\<close>

definition hi :: message where
  "hi = \<lparr>from_user_id = 7, chat_id = 70, message_text = codepoints ''hi''\<rparr>"

definition blank :: message where
  "blank = \<lparr>from_user_id = 7, chat_id = 70, message_text = [32, 10, 9]\<rparr>"

definition provider_says_hello :: environment where
  "provider_says_hello = alone\<lparr>provider := (\<lambda>_. Returns [Some (codepoints ''hello'')])\<rparr>"

definition provider_rate_limited :: environment where
  "provider_rate_limited = alone\<lparr>provider := (\<lambda>_. Raises_RateLimitError)\<rparr>"

definition provider_returns_no_choices :: environment where
  "provider_returns_no_choices = alone\<lparr>provider := (\<lambda>_. Returns [])\<rparr>"

definition racing_debit :: environment where
  "racing_debit = provider_says_hello\<lparr>others_during_completion := other_handler_debits 1 7\<rparr>"

definition duplicate_insert_race :: environment where
  "duplicate_insert_race =
     alone\<lparr>others_before_create := other_caller_creates 1 7, create_time := 2\<rparr>"

definition ledger_unavailable :: environment where
  "ledger_unavailable = alone\<lparr>get_user_sqlite := Connect_raises\<rparr>"

section \<open>Facts about the statements and the repository\<close>

lemma select_user_SomeD:
  "select_user t i = Some u \<Longrightarrow> u \<in> set t \<and> tg_id u = i"
  by (auto simp: select_user_def find_Some_iff)

lemma select_user_None_iff:
  "select_user t i = None \<longleftrightarrow> (\<forall>r\<in>set t. tg_id r \<noteq> i)"
  by (auto simp: select_user_def find_None_iff)

lemma primary_key_unique:
  "primary_key t \<Longrightarrow> r \<in> set t \<Longrightarrow> r' \<in> set t \<Longrightarrow> tg_id r = tg_id r' \<Longrightarrow> r = r'"
  by (auto simp: primary_key_def distinct_map dest: inj_onD)

lemma accounts_selected:
  assumes "primary_key t" and "select_user t i = Some u"
  shows "accounts t i = [u]"
  using assms
proof (induction t)
  case Nil
  then show ?case by (simp add: select_user_def)
next
  case (Cons r t)
  show ?case
  proof (cases "tg_id r = i")
    case True
    with Cons.prems have u: "u = r" by (simp add: select_user_def)
    from Cons.prems(1) have "tg_id r \<notin> tg_id ` set t"
      by (simp add: primary_key_def)
    with True have "\<forall>r'\<in>set t. tg_id r' \<noteq> i"
      by blast
    then have "filter (\<lambda>r. tg_id r = i) t = []" by (simp add: filter_empty_conv)
    with True u show ?thesis by (simp add: accounts_def)
  next
    case False
    with Cons.prems have "primary_key t" "select_user t i = Some u"
      by (auto simp: primary_key_def select_user_def)
    with Cons.IH False show ?thesis by (simp add: accounts_def)
  qed
qed

lemma update_matches_filter:
  "filter (update_matches i d) t = filter (\<lambda>r. 0 \<le> balance r + d) (accounts t i)"
  by (auto simp: accounts_def update_matches_def intro: filter_cong)

lemma update_users_rowcount:
  assumes "primary_key t" and "select_user t i = Some u"
  shows "snd (update_users t p1 p2 i d now) = (if 0 \<le> balance u + d then 1 else 0)"
  using accounts_selected [OF assms]
  by (simp add: update_users_def update_matches_filter)

lemma update_users_rejected:
  assumes "primary_key t" and "select_user t i = Some u" and "balance u + d < 0"
  shows "fst (update_users t p1 p2 i d now) = t"
proof -
  have "\<not> update_matches i d r" if "r \<in> set t" for r
    using primary_key_unique [OF assms(1) that, of u] select_user_SomeD [OF assms(2)] assms(3)
    by (auto simp: update_matches_def)
  then show ?thesis
    by (simp add: update_users_def map_idI)
qed

lemma update_users_applied:
  assumes "primary_key t" and "select_user t i = Some u" and "0 \<le> balance u + d"
  shows "fst (update_users t p1 p2 i d now) =
           map (\<lambda>r. if tg_id r = i
                     then r\<lparr>balance := balance r + p1, updated_at := now,
                            total_requests := total_requests r + \<bar>p2\<bar>\<rparr>
                     else r) t"
proof -
  have "update_matches i d r \<longleftrightarrow> tg_id r = i" if "r \<in> set t" for r
    using primary_key_unique [OF assms(1) that, of u] select_user_SomeD [OF assms(2)] assms(3)
    by (auto simp: update_matches_def)
  then show ?thesis
    by (simp add: update_users_def)
qed

lemma update_users_nonneg:
  assumes "\<forall>r\<in>set t. 0 \<le> balance r"
  shows "\<forall>r\<in>set (fst (update_users t d p2 i d now)). 0 \<le> balance r"
  using assms by (auto simp: update_users_def update_matches_def)

lemma select_user_map:
  assumes "\<And>r. tg_id (f r) = tg_id r"
  shows "select_user (map f t) i = map_option f (select_user t i)"
  by (induction t) (simp_all add: select_user_def assms)

lemma update_balance_ok:
  "update_balance Sqlite_ok now w i delta =
     (Inr (0 < snd (update_users (users w) delta (if delta < 0 then - delta else 0) i delta now)),
      w\<lparr>calls := calls w @ [Update_balance i delta],
        users := fst (update_users (users w) delta (if delta < 0 then - delta else 0) i delta now)\<rparr>)"
  by (simp add: update_balance_def get_cursor_def record_call_def split: prod.splits)

lemma update_balance_fault:
  "s \<noteq> Sqlite_ok \<Longrightarrow>
     \<exists>err. update_balance s now w i delta = (Inl err, w\<lparr>calls := calls w @ [Update_balance i delta]\<rparr>)"
  by (cases s) (simp_all add: update_balance_def get_cursor_def record_call_def)

lemma update_balance_non_negative:
  assumes "non_negative (users w)"
  shows "non_negative (users (snd (update_balance s now w i delta)))"
proof (cases "s = Sqlite_ok")
  case True
  from assms have "\<forall>r\<in>set (users w). 0 \<le> balance r"
    by (simp add: non_negative_def list_all_iff)
  from update_users_nonneg [OF this] True show ?thesis
    by (simp add: update_balance_ok non_negative_def list_all_iff)
next
  case False
  from update_balance_fault [OF this] obtain err where
    "update_balance s now w i delta = (Inl err, w\<lparr>calls := calls w @ [Update_balance i delta]\<rparr>)"
    by blast
  with assms show ?thesis by simp
qed

lemma apply_adjustments_non_negative:
  "non_negative (users w) \<Longrightarrow> non_negative (users (apply_adjustments as w))"
proof (induction as arbitrary: w)
  case Nil
  then show ?case by simp
next
  case (Cons a as)
  obtain s now i delta where a: "a = (s, now, i, delta)" by (cases a) auto
  from Cons.prems have "non_negative (users (snd (update_balance s now w i delta)))"
    by (rule update_balance_non_negative)
  then show ?case unfolding a by (simp add: Cons.IH)
qed

lemma list_ex_select_user:
  "list_ex (\<lambda>r. tg_id r = i) t \<longleftrightarrow> select_user t i \<noteq> None"
  by (simp add: select_user_None_iff list_ex_iff)

lemma select_user_append:
  "select_user (t @ t') i = (case select_user t i of Some u \<Rightarrow> Some u | None \<Rightarrow> select_user t' i)"
  by (induction t) (simp_all add: select_user_def)

lemma insert_or_ignore_eq:
  "insert_or_ignore t i un fn ln default_free_requests now =
     (case select_user t i of Some u \<Rightarrow> t | None \<Rightarrow> t @ [new_row i un fn ln now])"
  by (simp add: insert_or_ignore_def list_ex_select_user new_row_def split: option.splits)

lemma select_user_insert_or_ignore:
  "select_user (insert_or_ignore t i un fn ln default_free_requests now) i =
     Some (case select_user t i of Some u \<Rightarrow> u | None \<Rightarrow> new_row i un fn ln now)"
  by (simp add: insert_or_ignore_eq select_user_append split: option.splits)
     (simp add: select_user_def new_row_def)

lemma primary_key_insert_or_ignore:
  "primary_key t \<Longrightarrow> primary_key (insert_or_ignore t i un fn ln b now)"
  by (auto simp: insert_or_ignore_def primary_key_def list_ex_iff)

lemma accounts_map:
  assumes "\<And>r. tg_id (f r) = tg_id r"
  shows "accounts (map f t) i = map f (accounts t i)"
  by (induction t) (simp_all add: accounts_def assms)

lemma update_users_none:
  "snd (update_users t p1 p2 i d now) = 0 \<Longrightarrow> fst (update_users t p1 p2 i d now) = t"
  by (simp add: update_users_def filter_empty_conv map_idI)

lemma get_user_ok:
  "get_user Sqlite_ok w i =
     (Inr (select_user (users w) i), w\<lparr>calls := calls w @ [Get_user i]\<rparr>)"
  by (simp add: get_user_def get_cursor_def record_call_def)

lemma get_user_fault:
  "s \<noteq> Sqlite_ok \<Longrightarrow>
     \<exists>err. get_user s w i = (Inl err, w\<lparr>calls := calls w @ [Get_user i]\<rparr>)"
  by (cases s) (simp_all add: get_user_def get_cursor_def record_call_def)

lemma create_user_ok:
  "create_user Sqlite_ok now w i un fn ln =
     (Inr (case select_user (users w) i of Some u \<Rightarrow> u | None \<Rightarrow> new_row i un fn ln now),
      w\<lparr>calls := calls w @ [Create_user i],
        users := insert_or_ignore (users w) i un fn ln default_free_requests now\<rparr>)"
  by (simp add: create_user_def get_cursor_def record_call_def Let_def
      select_user_insert_or_ignore)

lemma create_user_fault:
  "s \<noteq> Sqlite_ok \<Longrightarrow>
     \<exists>err. create_user s now w i un fn ln = (Inl err, w\<lparr>calls := calls w @ [Create_user i]\<rparr>)"
  by (cases s) (simp_all add: create_user_def get_cursor_def record_call_def)

lemma update_balance_not_applied:
  assumes "update_balance s now w i delta = (Inr False, w')"
  shows "users w' = users w"
proof (cases "s = Sqlite_ok")
  case True
  with assms show ?thesis
    by (auto simp: update_balance_ok update_users_none)
next
  case False
  from update_balance_fault [OF this, of now w i delta] assms show ?thesis by auto
qed

lemma update_balance_result_ok:
  assumes "update_balance s now w i delta = (Inr b, w')"
  shows "s = Sqlite_ok"
proof (rule ccontr)
  assume "s \<noteq> Sqlite_ok"
  from update_balance_fault [OF this, of now w i delta] assms show False by auto
qed

lemma debit_result:
  assumes "primary_key (users w)" and "select_user (users w) i = Some u" and "0 < cost"
    and "update_balance_sqlite e = Sqlite_ok"
  shows "ensure_sufficient_balance e w i cost =
           (Inr (0 \<le> balance u - cost),
            w\<lparr>calls := calls w @ [Update_balance i (- cost)],
              users := (if 0 \<le> balance u - cost
                        then map (\<lambda>r. if tg_id r = i
                                       then r\<lparr>balance := balance r - cost,
                                              updated_at := update_time e,
                                              total_requests := total_requests r + cost\<rparr>
                                       else r) (users w)
                        else users w)\<rparr>)"
proof (cases "0 \<le> balance u - cost")
  case True
  then have "0 \<le> balance u + - cost" by simp
  from update_users_applied [OF assms(1,2) this] update_users_rowcount [OF assms(1,2)]
    True assms(3,4)
  show ?thesis
    by (simp add: ensure_sufficient_balance_def update_balance_ok)
next
  case False
  then have "balance u + - cost < 0" by simp
  from update_users_rejected [OF assms(1,2) this] update_users_rowcount [OF assms(1,2)]
    False assms(3,4)
  show ?thesis
    by (simp add: ensure_sufficient_balance_def update_balance_ok)
qed

lemma get_or_create_user_existing:
  assumes "get_user_sqlite e = Sqlite_ok" and "select_user (users w) i = Some u"
  shows "get_or_create_user e w i un fn ln = (Inr u, w\<lparr>calls := calls w @ [Get_user i]\<rparr>)"
  using assms by (simp add: get_or_create_user_def get_user_ok)

lemma get_or_create_user_unseen:
  assumes "get_user_sqlite e = Sqlite_ok" and "create_user_sqlite e = Sqlite_ok"
    and "select_user (users w) i = None"
  shows "get_or_create_user e w i un fn ln =
           (Inr (case select_user (others_before_create e (users w)) i of
                   Some u \<Rightarrow> u | None \<Rightarrow> new_row i un fn ln (create_time e)),
            w\<lparr>calls := calls w @ [Get_user i, Create_user i],
              users := insert_or_ignore (others_before_create e (users w)) i un fn ln
                         default_free_requests (create_time e)\<rparr>)"
  using assms
  by (simp add: get_or_create_user_def get_user_ok create_user_ok concurrently_def)

lemma get_or_create_user_selected:
  assumes "get_or_create_user e w i un fn ln = (Inr user, w1)"
  shows "select_user (users w1) i = Some user"
proof (cases "get_user_sqlite e = Sqlite_ok")
  case gok: True
  show ?thesis
  proof (cases "select_user (users w) i")
    case (Some u0)
    with gok assms show ?thesis
      by (auto simp: get_or_create_user_def get_user_ok)
  next
    case None
    show ?thesis
    proof (cases "create_user_sqlite e = Sqlite_ok")
      case True
      with None gok assms show ?thesis
        by (auto simp: get_or_create_user_def get_user_ok create_user_ok concurrently_def
            select_user_insert_or_ignore)
    next
      case False
      from create_user_fault [OF this] None gok assms show ?thesis
        by (auto simp: get_or_create_user_def get_user_ok)
          (metis Inl_Inr_False fst_conv)
    qed
  qed
next
  case False
  from get_user_fault [OF this, of w i] assms show ?thesis
    by (auto simp: get_or_create_user_def)
qed

lemma get_or_create_user_existing_users:
  assumes "get_or_create_user e w i un fn ln = (Inr user, w1)"
    and "select_user (users w) i = Some u0"
  shows "users w1 = users w \<and> user = u0"
proof (cases "get_user_sqlite e = Sqlite_ok")
  case True
  with assms show ?thesis
    by (auto simp: get_or_create_user_def get_user_ok)
next
  case False
  from get_user_fault [OF this, of w i] assms show ?thesis
    by (auto simp: get_or_create_user_def)
qed

section \<open>Facts about the call log and the handler\<close>

lemma get_cursor_calls: "calls (snd (get_cursor s body w)) = calls w"
  by (cases s) (auto simp: get_cursor_def split: sum.splits)

lemma get_user_calls: "calls (snd (get_user s w i)) = calls w @ [Get_user i]"
  by (simp add: get_user_def get_cursor_calls record_call_def)

lemma create_user_calls:
  "calls (snd (create_user s now w i un fn ln)) = calls w @ [Create_user i]"
  by (simp add: create_user_def get_cursor_calls record_call_def)

lemma update_balance_calls:
  "calls (snd (update_balance s now w i delta)) = calls w @ [Update_balance i delta]"
  by (simp add: update_balance_def get_cursor_calls record_call_def)

lemma get_or_create_user_calls:
  "\<exists>cs. calls (snd (get_or_create_user e w i un fn ln)) = calls w @ cs
        \<and> list_all is_ledger_call cs \<and> \<not> list_ex is_debit_call cs"
proof (cases "get_user (get_user_sqlite e) w i")
  case (Pair r w1)
  from get_user_calls [of "get_user_sqlite e" w i] Pair
  have c1: "calls w1 = calls w @ [Get_user i]" by simp
  show ?thesis
  proof (cases r)
    case (Inl err)
    with Pair c1 show ?thesis by (simp add: get_or_create_user_def)
  next
    case (Inr found)
    show ?thesis
    proof (cases found)
      case (Some user)
      with Pair Inr c1 show ?thesis by (simp add: get_or_create_user_def)
    next
      case None
      with Pair Inr c1 show ?thesis
        by (simp add: get_or_create_user_def create_user_calls concurrently_def)
    qed
  qed
qed

lemma ledger_calls_deliver_nothing:
  "list_all is_ledger_call cs \<Longrightarrow> \<not> list_ex delivers_response cs"
proof (induction cs)
  case Nil
  then show ?case by simp
next
  case (Cons c cs)
  then show ?case by (cases c) simp_all
qed

lemma ledger_calls_no_gateway:
  "list_all is_ledger_call cs \<Longrightarrow> \<not> list_ex is_gateway_call cs"
proof (induction cs)
  case Nil
  then show ?case by simp
next
  case (Cons c cs)
  then show ?case by (cases c) simp_all
qed

lemma strip_empty_iff: "strip s = [] \<longleftrightarrow> list_all py_isspace s"
proof
  assume "strip s = []"
  then have all: "\<forall>x\<in>set (dropWhile py_isspace s). py_isspace x"
    by (simp add: strip_def dropWhile_eq_Nil_conv)
  have "dropWhile py_isspace s = []"
  proof (rule ccontr)
    assume ne: "dropWhile py_isspace s \<noteq> []"
    then have "\<not> py_isspace (hd (dropWhile py_isspace s))"
      by (rule hd_dropWhile)
    moreover from ne have "hd (dropWhile py_isspace s) \<in> set (dropWhile py_isspace s)"
      by simp
    ultimately show False using all by blast
  qed
  then show "list_all py_isspace s"
    by (simp add: dropWhile_eq_Nil_conv list_all_iff)
next
  assume "list_all py_isspace s"
  then have d: "dropWhile py_isspace s = []"
    by (simp add: dropWhile_eq_Nil_conv list_all_iff)
  show "strip s = []"
    unfolding strip_def d by simp
qed

lemma strip_hi: "strip (codepoints ''hi'') = [104, 105]"
  by (simp add: strip_def codepoints_def py_isspace_def)

lemma generate_response_eq:
  "generate_response e w prompt =
     (case generate_response_try (provider e prompt) of
        Inl x \<Rightarrow> Inl (generate_response_except x) | Inr t \<Rightarrow> Inr t,
      w\<lparr>calls := calls w @ [ChatCompletion_create prompt]\<rparr>)"
  by (simp add: generate_response_def record_call_def split: sum.splits)

lemma awaiting_debit_calls:
  "calls (awaiting_debit e m w1) =
     calls w1 @ [Send_message (chat_id m) Processing_text,
                 ChatCompletion_create (strip (message_text m))]"
  by (simp add: awaiting_debit_def concurrently_def record_call_def send_message_def)

lemma awaiting_debit_users:
  "users (awaiting_debit e m w1) = others_during_completion e (users w1)"
  by (simp add: awaiting_debit_def concurrently_def record_call_def send_message_def)

lemma handler_insufficient:
  assumes "strip (message_text m) \<noteq> []"
    and "get_or_create_user e w (from_user_id m) None None None = (Inr user, w1)"
    and "balance user \<le> 0"
  shows "handle_text_message e m w =
           (Inr (), w1\<lparr>calls := calls w1 @
                         [Send_message (chat_id m) (Balance_warning_text (balance user))]\<rparr>)"
  using assms
  by (simp add: handle_text_message_def handle_text_message_try_def send_balance_warning_def
      send_message_def record_call_def)

lemma handler_gateway_failure:
  assumes "strip (message_text m) \<noteq> []"
    and "get_or_create_user e w (from_user_id m) None None None = (Inr user, w1)"
    and "0 < balance user"
    and "generate_response_try (provider e (strip (message_text m))) = Inl x"
    and "generate_response_except x = OpenAIError reason"
  shows "handle_text_message e m w =
           (Inr (), w1\<lparr>calls := calls w1 @
                         [Send_message (chat_id m) Processing_text,
                          ChatCompletion_create (strip (message_text m)),
                          Edit_message_text (OpenAI_error_text (codepoints reason)) (chat_id m)
                            (processing_message_id e)],
                       users := others_during_completion e (users w1)\<rparr>)"
  using assms
  by (simp add: handle_text_message_def handle_text_message_try_def generate_response_eq
      send_message_def edit_message_text_def record_call_def concurrently_def Let_def)

lemma handler_completed:
  assumes "strip (message_text m) \<noteq> []"
    and "get_or_create_user e w (from_user_id m) None None None = (Inr user, w1)"
    and "0 < balance user"
    and "generate_response_try (provider e (strip (message_text m))) = Inr response"
    and "ensure_sufficient_balance e (awaiting_debit e m w1) (from_user_id m) 1 = (r, w4)"
  shows "handle_text_message e m w =
           (Inr (),
            w4\<lparr>calls := calls w4 @
                  [Edit_message_text
                     (if r = Inr True then Response_text response (balance user - 1)
                      else Request_error_text)
                     (chat_id m) (processing_message_id e)]\<rparr>)"
proof -
  have w3: "concurrently (others_during_completion e)
              (snd (generate_response e (send_message w1 (chat_id m) Processing_text)
                      (strip (message_text m)))) = awaiting_debit e m w1"
    by (simp add: generate_response_eq awaiting_debit_def record_call_def)
  have g: "fst (generate_response e (send_message w1 (chat_id m) Processing_text)
                  (strip (message_text m))) = Inr response"
    using assms(4) by (simp add: generate_response_eq)
  obtain w3' where gen:
    "generate_response e (send_message w1 (chat_id m) Processing_text) (strip (message_text m))
       = (Inr response, w3')"
    and w3': "concurrently (others_during_completion e) w3' = awaiting_debit e m w1"
    using g w3 by (cases "generate_response e (send_message w1 (chat_id m) Processing_text)
                     (strip (message_text m))") auto
  show ?thesis
  proof (cases r)
    case (Inl err)
    with assms(1,2,3,5) gen w3' show ?thesis
      by (simp add: handle_text_message_def handle_text_message_try_def Let_def
          edit_message_text_def record_call_def)
  next
    case (Inr applied)
    with assms(1,2,3,5) gen w3' show ?thesis
      by (cases applied)
        (simp_all add: handle_text_message_def handle_text_message_try_def Let_def
          edit_message_text_def record_call_def build_response_text_def)
  qed
qed

lemma handler_ledger_unavailable:
  assumes "strip (message_text m) \<noteq> []"
    and "get_or_create_user e w (from_user_id m) None None None = (Inl err, w1)"
  shows "handle_text_message e m w = (Inl UnboundLocalError, w1)"
  using assms
  by (simp add: handle_text_message_def handle_text_message_try_def)

lemma handle_text_message_raises_iff:
  "fst (handle_text_message e m w) = Inl UnboundLocalError \<longleftrightarrow>
     strip (message_text m) \<noteq> [] \<and>
     (\<exists>err. fst (get_or_create_user e w (from_user_id m) None None None) = Inl err)"
proof (cases "strip (message_text m) = []")
  case True
  then show ?thesis
    by (simp add: handle_text_message_def)
next
  case ne: False
  obtain r w1 where g: "get_or_create_user e w (from_user_id m) None None None = (r, w1)"
    by (cases "get_or_create_user e w (from_user_id m) None None None")
  show ?thesis
  proof (cases r)
    case (Inl err)
    with handler_ledger_unavailable [OF ne] g ne show ?thesis by simp
  next
    case (Inr user)
    with g have g': "get_or_create_user e w (from_user_id m) None None None = (Inr user, w1)"
      by simp
    have "fst (handle_text_message e m w) = Inr ()"
    proof (cases "balance user \<le> 0")
      case True
      from handler_insufficient [OF ne g' True] show ?thesis by simp
    next
      case False
      then have pos: "0 < balance user" by simp
      show ?thesis
      proof (cases "generate_response_try (provider e (strip (message_text m)))")
        case (Inl x)
        obtain reason where "generate_response_except x = OpenAIError reason"
          by (cases "generate_response_except x") auto
        from handler_gateway_failure [OF ne g' pos Inl this] show ?thesis by simp
      next
        case (Inr response)
        obtain r4 w4 where
          "ensure_sufficient_balance e (awaiting_debit e m w1) (from_user_id m) 1 = (r4, w4)"
          by (cases "ensure_sufficient_balance e (awaiting_debit e m w1) (from_user_id m) 1")
        from handler_completed [OF ne g' pos Inr this] show ?thesis by simp
      qed
    qed
    with g Inr show ?thesis by simp
  qed
qed

section \<open>The ledger never goes negative\<close>

text \<open>
  Claim C2. Whatever sequence of \<open>update_balance\<close> calls is applied (debits, credits,
  calls during which SQLite fails), a table whose balances are all at least 0 keeps that
  property after every prefix of the sequence. A debit that would take the account below 0
  does not return \<open>True\<close> and leaves the whole table, so the balance and \<open>total_requests\<close>
  of the account, as it was.
\<close>

theorem update_balance_never_negative:
  "(non_negative (users w) \<longrightarrow> (\<forall>n. non_negative (users (apply_adjustments (take n as) w))))
   \<and> (primary_key (users w) \<and> select_user (users w) i = Some u \<and> balance u + delta < 0 \<longrightarrow>
        fst (update_balance s now w i delta) \<noteq> Inr True
        \<and> users (snd (update_balance s now w i delta)) = users w)"
proof (intro conjI impI allI)
  fix n assume "non_negative (users w)"
  then show "non_negative (users (apply_adjustments (take n as) w))"
    by (rule apply_adjustments_non_negative)
next
  assume h: "primary_key (users w) \<and> select_user (users w) i = Some u \<and> balance u + delta < 0"
  show "fst (update_balance s now w i delta) \<noteq> Inr True"
  proof (cases "s = Sqlite_ok")
    case True
    with h show ?thesis
      by (simp add: update_balance_ok update_users_rowcount)
  next
    case False
    from update_balance_fault [OF this, of now w i delta] show ?thesis by auto
  qed
next
  assume h: "primary_key (users w) \<and> select_user (users w) i = Some u \<and> balance u + delta < 0"
  show "users (snd (update_balance s now w i delta)) = users w"
  proof (cases "s = Sqlite_ok")
    case True
    with h show ?thesis
      by (simp add: update_balance_ok update_users_rejected)
  next
    case False
    from update_balance_fault [OF this, of now w i delta] show ?thesis by auto
  qed
qed

theorem update_balance_never_negative_witness:
  "non_negative (users (ledger [account 7 1])) \<and>
   non_negative (users (apply_adjustments
      [(Sqlite_ok, 1, 7, - 1), (Sqlite_ok, 2, 7, - 1), (Sqlite_ok, 3, 7, 5),
       (Statement_raises, 4, 7, - 9), (Sqlite_ok, 5, 7, - 6)]
      (ledger [account 7 1]))) \<and>
   primary_key (users (ledger [account 7 1])) \<and>
   select_user (users (ledger [account 7 1])) 7 = Some (account 7 1) \<and>
   balance (account 7 1) + (- 2) < 0 \<and>
   fst (update_balance Sqlite_ok 0 (ledger [account 7 1]) 7 (- 2)) \<noteq> Inr True \<and>
   users (snd (update_balance Sqlite_ok 0 (ledger [account 7 1]) 7 (- 2))) = [account 7 1]"
proof -
  let ?w = "ledger [account 7 1]"
  let ?as = "[(Sqlite_ok, 1, 7, - 1), (Sqlite_ok, 2, 7, - 1), (Sqlite_ok, 3, 7, 5),
              (Statement_raises, 4, 7, - 9), (Sqlite_ok, 5, 7, - 6)]
             :: (sqlite_behaviour \<times> nat \<times> int \<times> int) list"
  have nn: "non_negative (users ?w)"
    by (simp add: non_negative_def ledger_def account_def)
  have pk: "primary_key (users ?w)"
    by (simp add: primary_key_def ledger_def)
  have sel: "select_user (users ?w) 7 = Some (account 7 1)"
    by (simp add: select_user_def ledger_def account_def)
  have neg: "balance (account 7 1) + (- 2) < 0"
    by (simp add: account_def)
  note inst = update_balance_never_negative [of "?w" "?as" 7 "account 7 1" "- 2" Sqlite_ok 0]
  from inst nn have "\<forall>n. non_negative (users (apply_adjustments (take n ?as) ?w))"
    by (rule conjunct1 [THEN mp])
  then have "non_negative (users (apply_adjustments (take 5 ?as) ?w))"
    by (rule spec)
  then have seq: "non_negative (users (apply_adjustments ?as ?w))"
    by simp
  from inst pk sel neg have
    "fst (update_balance Sqlite_ok 0 ?w 7 (- 2)) \<noteq> Inr True
     \<and> users (snd (update_balance Sqlite_ok 0 ?w 7 (- 2))) = users ?w"
    by blast
  then have rej:
    "fst (update_balance Sqlite_ok 0 ?w 7 (- 2)) \<noteq> Inr True
     \<and> users (snd (update_balance Sqlite_ok 0 ?w 7 (- 2))) = [account 7 1]"
    by (simp add: ledger_def)
  from nn seq pk sel neg rej show ?thesis by blast
qed

section \<open>The debit\<close>

text \<open>
  Claim C3. For an existing account and a positive cost, \<open>ensure_sufficient_balance\<close>
  returns whether the balance covers the cost; when it does, exactly the account's row has
  its balance lowered by the cost and its \<open>total_requests\<close> raised by the cost, and when it
  does not, the table is unchanged. When SQLite fails the call raises and the table is
  unchanged.
\<close>

theorem ensure_sufficient_balance_debits_iff_covered:
  assumes "primary_key (users w)" and "select_user (users w) i = Some u" and "0 < cost"
  shows "(update_balance_sqlite e = Sqlite_ok \<longrightarrow>
            ensure_sufficient_balance e w i cost =
              (Inr (0 \<le> balance u - cost),
               w\<lparr>calls := calls w @ [Update_balance i (- cost)],
                 users := (if 0 \<le> balance u - cost
                           then map (\<lambda>r. if tg_id r = i
                                          then r\<lparr>balance := balance r - cost,
                                                 updated_at := update_time e,
                                                 total_requests := total_requests r + cost\<rparr>
                                          else r) (users w)
                           else users w)\<rparr>)
            \<and> select_user (users (snd (ensure_sufficient_balance e w i cost))) i =
                Some (if 0 \<le> balance u - cost
                      then u\<lparr>balance := balance u - cost, updated_at := update_time e,
                             total_requests := total_requests u + cost\<rparr>
                      else u))
         \<and> (update_balance_sqlite e \<noteq> Sqlite_ok \<longrightarrow>
              (\<exists>err. fst (ensure_sufficient_balance e w i cost) = Inl err)
              \<and> users (snd (ensure_sufficient_balance e w i cost)) = users w)"
proof (intro conjI impI)
  assume ok: "update_balance_sqlite e = Sqlite_ok"
  from assms ok
  show eq: "ensure_sufficient_balance e w i cost =
              (Inr (0 \<le> balance u - cost),
               w\<lparr>calls := calls w @ [Update_balance i (- cost)],
                 users := (if 0 \<le> balance u - cost
                           then map (\<lambda>r. if tg_id r = i
                                          then r\<lparr>balance := balance r - cost,
                                                 updated_at := update_time e,
                                                 total_requests := total_requests r + cost\<rparr>
                                          else r) (users w)
                           else users w)\<rparr>)"
    by (rule debit_result)
  show "select_user (users (snd (ensure_sufficient_balance e w i cost))) i =
          Some (if 0 \<le> balance u - cost
                then u\<lparr>balance := balance u - cost, updated_at := update_time e,
                       total_requests := total_requests u + cost\<rparr>
                else u)"
  proof (cases "0 \<le> balance u - cost")
    case True
    have "select_user (map (\<lambda>r. if tg_id r = i
                                  then r\<lparr>balance := balance r - cost,
                                         updated_at := update_time e,
                                         total_requests := total_requests r + cost\<rparr>
                                  else r) (users w)) i =
          map_option (\<lambda>r. if tg_id r = i
                                  then r\<lparr>balance := balance r - cost,
                                         updated_at := update_time e,
                                         total_requests := total_requests r + cost\<rparr>
                                  else r) (select_user (users w) i)"
      by (rule select_user_map) simp
    with True assms(2) select_user_SomeD [OF assms(2)] show ?thesis
      by (simp add: eq)
  next
    case False
    with assms(2) show ?thesis by (simp add: eq)
  qed
next
  assume "update_balance_sqlite e \<noteq> Sqlite_ok"
  from update_balance_fault [OF this, of "update_time e" w i "- cost"]
  show "\<exists>err. fst (ensure_sufficient_balance e w i cost) = Inl err"
    by (auto simp: ensure_sufficient_balance_def)
next
  assume "update_balance_sqlite e \<noteq> Sqlite_ok"
  from update_balance_fault [OF this, of "update_time e" w i "- cost"]
  show "users (snd (ensure_sufficient_balance e w i cost)) = users w"
    by (auto simp: ensure_sufficient_balance_def)
qed

theorem ensure_sufficient_balance_debits_iff_covered_witness:
  "primary_key (users (ledger [account 7 1])) \<and>
   select_user (users (ledger [account 7 1])) 7 = Some (account 7 1) \<and>
   ensure_sufficient_balance alone (ledger [account 7 1]) 7 1 =
     (Inr True,
      \<lparr>users = [(account 7 0)\<lparr>total_requests := 1\<rparr>], calls = [Update_balance 7 (- 1)]\<rparr>) \<and>
   ensure_sufficient_balance alone (ledger [account 7 1]) 7 2 =
     (Inr False, \<lparr>users = [account 7 1], calls = [Update_balance 7 (- 2)]\<rparr>)"
  using ensure_sufficient_balance_debits_iff_covered [of "ledger [account 7 1]" 7 "account 7 1" 1 alone]
        ensure_sufficient_balance_debits_iff_covered [of "ledger [account 7 1]" 7 "account 7 1" 2 alone]
  by (simp add: primary_key_def select_user_def ledger_def account_def alone_def)

section \<open>Account resolution is idempotent\<close>

text \<open>
  Claim C7. Let the table satisfy its primary key, before the call and after whatever the
  other threads commit between \<open>get_user\<close> and \<open>create_user\<close>, and let SQLite not fail.
  Then \<open>get_or_create_user\<close> returns an account, and afterwards the table holds exactly
  one row for the user, the returned one. An account that existed is returned as it is and
  the table is unchanged. For a user not seen before, either another thread inserted the
  row first, and then the insert is ignored and that row is returned untouched, or the row
  is inserted with \<open>default_free_requests\<close> as balance and no requests counted. A
  second call, with any profile data, returns the same account and leaves the table as it
  is.
\<close>

theorem get_or_create_user_idempotent:
  assumes "primary_key (users w)" and "primary_key (others_before_create e (users w))"
    and "get_user_sqlite e = Sqlite_ok" and "create_user_sqlite e = Sqlite_ok"
    and "get_user_sqlite e' = Sqlite_ok"
  shows "\<exists>u w'. get_or_create_user e w i un fn ln = (Inr u, w')
           \<and> primary_key (users w') \<and> accounts (users w') i = [u]
           \<and> (\<forall>u0. select_user (users w) i = Some u0 \<longrightarrow> u = u0 \<and> users w' = users w)
           \<and> (select_user (users w) i = None \<longrightarrow>
                (case select_user (others_before_create e (users w)) i of
                   Some u1 \<Rightarrow> u = u1 \<and> users w' = others_before_create e (users w)
                 | None \<Rightarrow>
                     u = new_row i un fn ln (create_time e)
                     \<and> balance u = default_free_requests \<and> total_requests u = 0
                     \<and> users w' = others_before_create e (users w) @ [u]))
           \<and> get_or_create_user e' w' i un' fn' ln' =
               (Inr u, w'\<lparr>calls := calls w' @ [Get_user i]\<rparr>)"
proof (cases "select_user (users w) i")
  case (Some u0)
  let ?w' = "w\<lparr>calls := calls w @ [Get_user i]\<rparr>"
  from Some assms(3) have 1: "get_or_create_user e w i un fn ln = (Inr u0, ?w')"
    by (rule get_or_create_user_existing [rotated])
  from assms(1) Some have 2: "accounts (users ?w') i = [u0]"
    by (simp add: accounts_selected)
  from Some assms(5) have 3:
    "get_or_create_user e' ?w' i un' fn' ln' = (Inr u0, ?w'\<lparr>calls := calls ?w' @ [Get_user i]\<rparr>)"
    by (intro get_or_create_user_existing) simp_all
  from 1 2 3 Some assms(1) show ?thesis by simp
next
  case None
  let ?t = "others_before_create e (users w)"
  let ?t' = "insert_or_ignore ?t i un fn ln default_free_requests (create_time e)"
  let ?u = "case select_user ?t i of Some u \<Rightarrow> u | None \<Rightarrow> new_row i un fn ln (create_time e)"
  let ?w' = "w\<lparr>calls := calls w @ [Get_user i, Create_user i], users := ?t'\<rparr>"
  from assms(3,4) None have 1: "get_or_create_user e w i un fn ln = (Inr ?u, ?w')"
    by (rule get_or_create_user_unseen)
  from assms(2) have pk: "primary_key ?t'"
    by (rule primary_key_insert_or_ignore)
  have sel: "select_user ?t' i = Some ?u"
    by (rule select_user_insert_or_ignore)
  from pk sel have 2: "accounts (users ?w') i = [?u]"
    by (simp add: accounts_selected)
  from sel assms(5) have 3:
    "get_or_create_user e' ?w' i un' fn' ln' = (Inr ?u, ?w'\<lparr>calls := calls ?w' @ [Get_user i]\<rparr>)"
    by (intro get_or_create_user_existing) simp_all
  have 4: "case select_user ?t i of
             Some u1 \<Rightarrow> ?u = u1 \<and> users ?w' = ?t
           | None \<Rightarrow> ?u = new_row i un fn ln (create_time e)
                     \<and> balance ?u = default_free_requests \<and> total_requests ?u = 0
                     \<and> users ?w' = ?t @ [?u]"
    by (simp add: insert_or_ignore_eq new_row_def split: option.splits)
  from 1 pk 2 3 4 None show ?thesis by simp
qed

theorem get_or_create_user_idempotent_witness:
  "primary_key (users (ledger [])) \<and>
   primary_key (others_before_create duplicate_insert_race (users (ledger []))) \<and>
   get_user_sqlite duplicate_insert_race = Sqlite_ok \<and>
   create_user_sqlite duplicate_insert_race = Sqlite_ok \<and>
   get_or_create_user duplicate_insert_race (ledger []) 7 None None None =
     (Inr (account 7 3\<lparr>created_at := 1, updated_at := 1\<rparr>),
      \<lparr>users = [account 7 3\<lparr>created_at := 1, updated_at := 1\<rparr>],
        calls = [Get_user 7, Create_user 7]\<rparr>) \<and>
   accounts [account 7 3\<lparr>created_at := 1, updated_at := 1\<rparr>] 7 =
     [account 7 3\<lparr>created_at := 1, updated_at := 1\<rparr>] \<and>
   get_or_create_user alone
       \<lparr>users = [account 7 3\<lparr>created_at := 1, updated_at := 1\<rparr>],
        calls = [Get_user 7, Create_user 7]\<rparr> 7 None None None =
     (Inr (account 7 3\<lparr>created_at := 1, updated_at := 1\<rparr>),
      \<lparr>users = [account 7 3\<lparr>created_at := 1, updated_at := 1\<rparr>],
        calls = [Get_user 7, Create_user 7, Get_user 7]\<rparr>)"
  using get_or_create_user_idempotent [of "ledger []" duplicate_insert_race alone 7 None None None None None None]
  by (simp add: primary_key_def select_user_def ledger_def account_def alone_def accounts_def
      duplicate_insert_race_def other_caller_creates_def create_user_ok get_user_ok
      get_or_create_user_def concurrently_def insert_or_ignore_def default_free_requests_def)

section \<open>An empty response of the provider\<close>

text \<open>
  Claim C9, evaluated on a response without choices. The \<open>try\<close> block raises the module's
  \<open>OpenAIError\<close> with the message \<open>Empty response from OpenAI\<close>; that class derives from
  \<open>Exception\<close> only, so the last \<open>except\<close> clause of the same function catches it and
  raises \<open>Internal service error\<close> in its place. The call does fail, but with the error of
  the catch-all clause, the same one any unexpected exception produces.
\<close>

theorem empty_response_reported_as_internal_error:
  "generate_response_try (Returns []) = Inl (Bot_OpenAIError ''Empty response from OpenAI'')
   \<and> generate_response_except (Bot_OpenAIError ''Empty response from OpenAI'') =
       OpenAIError ''Internal service error''
   \<and> generate_response provider_returns_no_choices (ledger []) (codepoints ''hi'') =
       (Inl (OpenAIError ''Internal service error''),
        \<lparr>users = [], calls = [ChatCompletion_create (codepoints ''hi'')]\<rparr>)
   \<and> generate_response_except Other_Exception = OpenAIError ''Internal service error''"
  by (simp add: generate_response_try_def generate_response_eq provider_returns_no_choices_def
      alone_def ledger_def)

section \<open>Blank messages\<close>

text \<open>
  Claim C10. When every code point of the message text is whitespace (the empty text
  included), the handler sends the empty-message warning and returns: the table is the one
  before the call, and the only call made is that \<open>send_message\<close>, so neither the ledger
  nor the provider is reached and no account is created.
\<close>

theorem blank_message_returns_before_any_access:
  assumes "list_all py_isspace (message_text m)"
  shows "handle_text_message e m w =
           (Inr (), w\<lparr>calls := calls w @ [Send_message (chat_id m) Empty_message_text]\<rparr>)
         \<and> users (snd (handle_text_message e m w)) = users w
         \<and> \<not> list_ex is_ledger_call (calls_since w (snd (handle_text_message e m w)))
         \<and> \<not> list_ex is_gateway_call (calls_since w (snd (handle_text_message e m w)))"
proof -
  from assms have "strip (message_text m) = []"
    by (simp add: strip_empty_iff)
  then have eq: "handle_text_message e m w =
           (Inr (), w\<lparr>calls := calls w @ [Send_message (chat_id m) Empty_message_text]\<rparr>)"
    by (simp add: handle_text_message_def send_message_def record_call_def)
  then show ?thesis
    by (simp add: calls_since_def)
qed

theorem blank_message_returns_before_any_access_witness:
  "list_all py_isspace (message_text blank) \<and>
   handle_text_message alone blank (ledger []) =
     (Inr (), \<lparr>users = [], calls = [Send_message 70 Empty_message_text]\<rparr>)"
  using blank_message_returns_before_any_access [of blank alone "ledger []"]
  by (simp add: blank_def py_isspace_def ledger_def)

section \<open>The balance gate\<close>

text \<open>
  Claim C4. For a message with text, once the account is resolved: if its balance is at most
  0 the handler sends the balance warning, which carries that balance, and does nothing
  else; and the provider is called during the run exactly when the balance is positive.
\<close>

theorem insufficient_balance_skips_gateway:
  assumes "strip (message_text m) \<noteq> []"
    and "get_or_create_user e w (from_user_id m) None None None = (Inr user, w1)"
  shows "(balance user \<le> 0 \<longrightarrow>
            handle_text_message e m w =
              (Inr (), w1\<lparr>calls := calls w1 @
                            [Send_message (chat_id m) (Balance_warning_text (balance user))]\<rparr>))
         \<and> (list_ex is_gateway_call (calls_since w (snd (handle_text_message e m w)))
              \<longleftrightarrow> 0 < balance user)"
proof -
  from get_or_create_user_calls [of e w "from_user_id m" None None None] assms(2)
  obtain cs where cs: "calls w1 = calls w @ cs" "list_all is_ledger_call cs"
    by auto
  from cs(2) have ng: "\<not> list_ex is_gateway_call cs"
    by (rule ledger_calls_no_gateway)
  show ?thesis
  proof (cases "balance user \<le> 0")
    case True
    from handler_insufficient [OF assms True] cs ng True show ?thesis
      by (simp add: calls_since_def)
  next
    case False
    then have pos: "0 < balance user" by simp
    show ?thesis
    proof (cases "generate_response_try (provider e (strip (message_text m)))")
      case (Inl x)
      obtain reason where "generate_response_except x = OpenAIError reason"
        by (cases "generate_response_except x") auto
      from handler_gateway_failure [OF assms pos Inl this] cs pos show ?thesis
        by (simp add: calls_since_def)
    next
      case (Inr response)
      obtain r w4 where
        d: "ensure_sufficient_balance e (awaiting_debit e m w1) (from_user_id m) 1 = (r, w4)"
        by (cases "ensure_sufficient_balance e (awaiting_debit e m w1) (from_user_id m) 1")
      from d have "calls w4 = calls (awaiting_debit e m w1) @ [Update_balance (from_user_id m) (- 1)]"
        using update_balance_calls [of "update_balance_sqlite e" "update_time e"
            "awaiting_debit e m w1" "from_user_id m" "- 1"]
        by (simp add: ensure_sufficient_balance_def)
      with handler_completed [OF assms pos Inr d] cs pos show ?thesis
        by (simp add: calls_since_def awaiting_debit_calls)
    qed
  qed
qed

theorem insufficient_balance_skips_gateway_witness:
  "strip (message_text hi) \<noteq> [] \<and>
   get_or_create_user provider_says_hello (ledger [account 7 0]) (from_user_id hi) None None None =
     (Inr (account 7 0), \<lparr>users = [account 7 0], calls = [Get_user 7]\<rparr>) \<and>
   balance (account 7 0) \<le> 0 \<and>
   handle_text_message provider_says_hello hi (ledger [account 7 0]) =
     (Inr (), \<lparr>users = [account 7 0],
               calls = [Get_user 7, Send_message 70 (Balance_warning_text 0)]\<rparr>) \<and>
   \<not> list_ex is_gateway_call
        (calls_since (ledger [account 7 0])
           (snd (handle_text_message provider_says_hello hi (ledger [account 7 0]))))"
proof -
  have t: "strip (message_text hi) \<noteq> []"
    by (simp add: hi_def strip_hi)
  have g: "get_or_create_user provider_says_hello (ledger [account 7 0]) (from_user_id hi)
             None None None =
           (Inr (account 7 0), \<lparr>users = [account 7 0], calls = [Get_user 7]\<rparr>)"
    by (simp add: get_or_create_user_def get_user_ok provider_says_hello_def alone_def
        ledger_def hi_def select_user_def account_def)
  have b: "balance (account 7 0) \<le> 0"
    by (simp add: account_def)
  from insufficient_balance_skips_gateway [OF t g] b show ?thesis
    using t g by (simp add: hi_def account_def calls_since_def ledger_def)
qed

section \<open>A failed completion is not charged\<close>

text \<open>
  Claim C1. When the account is resolved with a positive balance and the provider call ends
  in an exception, whatever its class, the handler replaces the processing message by the
  error text of \<open>generate_response\<close> and returns normally. It calls \<open>update_balance\<close> nowhere
  in the run, the resolved account is the row of the user in the table, and the table at the
  end is the one after account resolution plus what other threads committed meanwhile; for
  an account that existed before the request it is the table before the request plus those
  commits.
\<close>

theorem gateway_failure_leaves_balance:
  assumes "strip (message_text m) \<noteq> []"
    and "get_or_create_user e w (from_user_id m) None None None = (Inr user, w1)"
    and "0 < balance user"
    and "generate_response_try (provider e (strip (message_text m))) = Inl x"
    and "generate_response_except x = OpenAIError reason"
  shows "handle_text_message e m w =
           (Inr (), w1\<lparr>calls := calls w1 @
                         [Send_message (chat_id m) Processing_text,
                          ChatCompletion_create (strip (message_text m)),
                          Edit_message_text (OpenAI_error_text (codepoints reason)) (chat_id m)
                            (processing_message_id e)],
                       users := others_during_completion e (users w1)\<rparr>)
         \<and> \<not> list_ex is_debit_call (calls_since w (snd (handle_text_message e m w)))
         \<and> select_user (users w1) (from_user_id m) = Some user
         \<and> (\<forall>u0. select_user (users w) (from_user_id m) = Some u0 \<longrightarrow>
               users (snd (handle_text_message e m w)) = others_during_completion e (users w))"
proof -
  note eq = handler_gateway_failure [OF assms]
  from get_or_create_user_calls [of e w "from_user_id m" None None None] assms(2)
  obtain cs where cs: "calls w1 = calls w @ cs" "\<not> list_ex is_debit_call cs"
    by auto
  from eq cs have nd: "\<not> list_ex is_debit_call (calls_since w (snd (handle_text_message e m w)))"
    by (simp add: calls_since_def)
  from assms(2) have sel: "select_user (users w1) (from_user_id m) = Some user"
    by (rule get_or_create_user_selected)
  have "users (snd (handle_text_message e m w)) = others_during_completion e (users w)"
    if "select_user (users w) (from_user_id m) = Some u0" for u0
    using get_or_create_user_existing_users [OF assms(2) that] eq by simp
  with eq nd sel show ?thesis by blast
qed

theorem gateway_failure_leaves_balance_witness:
  "strip (message_text hi) \<noteq> [] \<and>
   get_or_create_user provider_rate_limited (ledger [account 7 3]) (from_user_id hi)
       None None None =
     (Inr (account 7 3), \<lparr>users = [account 7 3], calls = [Get_user 7]\<rparr>) \<and>
   0 < balance (account 7 3) \<and>
   generate_response_try (provider provider_rate_limited (strip (message_text hi))) =
     Inl Openai_RateLimitError \<and>
   generate_response_except Openai_RateLimitError =
     OpenAIError ''Service temporarily unavailable due to high load'' \<and>
   handle_text_message provider_rate_limited hi (ledger [account 7 3]) =
     (Inr (),
      \<lparr>users = [account 7 3],
        calls = [Get_user 7, Send_message 70 Processing_text,
                 ChatCompletion_create (codepoints ''hi''),
                 Edit_message_text
                   (OpenAI_error_text
                      (codepoints ''Service temporarily unavailable due to high load''))
                   70 0]\<rparr>)"
proof -
  have t: "strip (message_text hi) \<noteq> []"
    by (simp add: hi_def strip_hi)
  have g: "get_or_create_user provider_rate_limited (ledger [account 7 3]) (from_user_id hi)
             None None None =
           (Inr (account 7 3), \<lparr>users = [account 7 3], calls = [Get_user 7]\<rparr>)"
    by (simp add: get_or_create_user_def get_user_ok provider_rate_limited_def alone_def
        ledger_def hi_def select_user_def account_def)
  have b: "0 < balance (account 7 3)"
    by (simp add: account_def)
  have f: "generate_response_try (provider provider_rate_limited (strip (message_text hi))) =
             Inl Openai_RateLimitError"
    by (simp add: provider_rate_limited_def alone_def generate_response_try_def)
  have x: "generate_response_except Openai_RateLimitError =
             OpenAIError ''Service temporarily unavailable due to high load''"
    by simp
  from gateway_failure_leaves_balance [OF t g b f x] have
    "handle_text_message provider_rate_limited hi (ledger [account 7 3]) =
       (Inr (),
        \<lparr>users = [account 7 3],
          calls = [Get_user 7, Send_message 70 Processing_text,
                   ChatCompletion_create (codepoints ''hi''),
                   Edit_message_text
                     (OpenAI_error_text
                        (codepoints ''Service temporarily unavailable due to high load''))
                     70 0]\<rparr>)"
    by (simp add: hi_def strip_def py_isspace_def provider_rate_limited_def alone_def
        codepoints_def)
  with t g b f x show ?thesis by blast
qed

section \<open>A fulfilled request\<close>

text \<open>
  When the completion succeeds and the debit returns \<open>True\<close>, the handler replaces the
  processing message by the response followed by the balance that account resolution read,
  minus 1. If the other threads left the row of the user as account resolution read it,
  whatever they did to other rows, that number is the balance stored after the debit. With
  balance 3, the response \<open>hello\<close> and no other thread, the reply carries \<open>hello\<close> and 2.
\<close>

lemma fulfilled_reports_resolved_balance_minus_one:
  assumes "strip (message_text m) \<noteq> []"
    and "get_or_create_user e w (from_user_id m) None None None = (Inr user, w1)"
    and "0 < balance user"
    and "generate_response_try (provider e (strip (message_text m))) = Inr response"
    and "ensure_sufficient_balance e (awaiting_debit e m w1) (from_user_id m) 1 = (Inr True, w4)"
  shows "handle_text_message e m w =
           (Inr (),
            w4\<lparr>calls := calls w4 @
                  [Edit_message_text (Response_text response (balance user - 1))
                     (chat_id m) (processing_message_id e)]\<rparr>)
         \<and> (primary_key (others_during_completion e (users w1))
              \<and> select_user (others_during_completion e (users w1)) (from_user_id m) = Some user
              \<longrightarrow> map balance (accounts (users w4) (from_user_id m)) = [balance user - 1])"
proof (intro conjI impI)
  from handler_completed [OF assms]
  show "handle_text_message e m w =
           (Inr (),
            w4\<lparr>calls := calls w4 @
                  [Edit_message_text (Response_text response (balance user - 1))
                     (chat_id m) (processing_message_id e)]\<rparr>)"
    by simp
next
  let ?t = "others_during_completion e (users w1)"
  assume h: "primary_key ?t \<and> select_user ?t (from_user_id m) = Some user"
  let ?wd = "awaiting_debit e m w1"
  let ?f = "\<lambda>r. if tg_id r = from_user_id m
                 then r\<lparr>balance := balance r - 1, updated_at := update_time e,
                        total_requests := total_requests r + 1\<rparr>
                 else r"
  have ud: "users ?wd = ?t"
    by (rule awaiting_debit_users)
  from assms(5) have ok: "update_balance_sqlite e = Sqlite_ok"
    by (auto simp: ensure_sufficient_balance_def dest: update_balance_result_ok)
  from h ud have pk: "primary_key (users ?wd)"
    and sd: "select_user (users ?wd) (from_user_id m) = Some user"
    by simp_all
  from debit_result [OF pk sd _ ok, of 1] assms(5) ud
  have "users w4 = map ?f ?t"
    by (auto split: if_splits)
  moreover have "accounts (map ?f ?t) (from_user_id m) = map ?f (accounts ?t (from_user_id m))"
    by (rule accounts_map) simp
  moreover from h have "accounts ?t (from_user_id m) = [user]"
    by (simp add: accounts_selected)
  moreover from h have "tg_id user = from_user_id m"
    by (auto dest: select_user_SomeD)
  ultimately show "map balance (accounts (users w4) (from_user_id m)) = [balance user - 1]"
    by simp
qed

lemma fulfilled_scenario_A:
  "strip (message_text hi) \<noteq> [] \<and>
   get_or_create_user provider_says_hello (ledger [account 7 3]) (from_user_id hi)
       None None None =
     (Inr (account 7 3), \<lparr>users = [account 7 3], calls = [Get_user 7]\<rparr>) \<and>
   0 < balance (account 7 3) \<and>
   generate_response_try (provider provider_says_hello (strip (message_text hi))) =
     Inr (codepoints ''hello'') \<and>
   ensure_sufficient_balance provider_says_hello
       (awaiting_debit provider_says_hello hi \<lparr>users = [account 7 3], calls = [Get_user 7]\<rparr>)
       (from_user_id hi) 1 =
     (Inr True,
      \<lparr>users = [(account 7 2)\<lparr>total_requests := 1\<rparr>],
        calls = [Get_user 7, Send_message 70 Processing_text,
                 ChatCompletion_create (codepoints ''hi''), Update_balance 7 (- 1)]\<rparr>) \<and>
   handle_text_message provider_says_hello hi (ledger [account 7 3]) =
     (Inr (),
      \<lparr>users = [(account 7 2)\<lparr>total_requests := 1\<rparr>],
        calls = [Get_user 7, Send_message 70 Processing_text,
                 ChatCompletion_create (codepoints ''hi''), Update_balance 7 (- 1),
                 Edit_message_text (Response_text (codepoints ''hello'') 2) 70 0]\<rparr>)"
proof -
  have t: "strip (message_text hi) \<noteq> []"
    by (simp add: hi_def strip_hi)
  have g: "get_or_create_user provider_says_hello (ledger [account 7 3]) (from_user_id hi)
             None None None =
           (Inr (account 7 3), \<lparr>users = [account 7 3], calls = [Get_user 7]\<rparr>)"
    by (simp add: get_or_create_user_def get_user_ok provider_says_hello_def alone_def
        ledger_def hi_def select_user_def account_def)
  have b: "0 < balance (account 7 3)"
    by (simp add: account_def)
  have r: "generate_response_try (provider provider_says_hello (strip (message_text hi))) =
             Inr (codepoints ''hello'')"
    by (simp add: provider_says_hello_def alone_def generate_response_try_def strip_def
        codepoints_def py_isspace_def)
  have d: "ensure_sufficient_balance provider_says_hello
             (awaiting_debit provider_says_hello hi
                \<lparr>users = [account 7 3], calls = [Get_user 7]\<rparr>)
             (from_user_id hi) 1 =
           (Inr True,
            \<lparr>users = [(account 7 2)\<lparr>total_requests := 1\<rparr>],
              calls = [Get_user 7, Send_message 70 Processing_text,
                       ChatCompletion_create (codepoints ''hi''), Update_balance 7 (- 1)]\<rparr>)"
    by (simp add: ensure_sufficient_balance_def update_balance_ok awaiting_debit_def
        concurrently_def record_call_def send_message_def provider_says_hello_def alone_def
        hi_def strip_def py_isspace_def codepoints_def update_users_def update_matches_def
        account_def)
  from fulfilled_reports_resolved_balance_minus_one [OF t g b r d] have
    "handle_text_message provider_says_hello hi (ledger [account 7 3]) =
       (Inr (),
        \<lparr>users = [(account 7 2)\<lparr>total_requests := 1\<rparr>],
          calls = [Get_user 7, Send_message 70 Processing_text,
                   ChatCompletion_create (codepoints ''hi''), Update_balance 7 (- 1),
                   Edit_message_text (Response_text (codepoints ''hello'') 2) 70 0]\<rparr>)"
    by (simp add: hi_def provider_says_hello_def alone_def account_def)
  with t g b r d show ?thesis by blast
qed

text \<open>
  Claim C5, evaluated on a run in which another handler of the same user debits while the
  completion is pending. Account resolution reads the balance 3, the other handler takes
  it to 2, the debit of this run takes it to 1, and the reply, built from
  \<open>user['balance'] - 1\<close> of the row read at the start, announces 2 remaining requests: the
  number passed as \<open>remaining_balance\<close> is not the balance after the debit.
\<close>

theorem fulfilled_balance_stale_after_concurrent_debit:
  "handle_text_message racing_debit hi (ledger [account 7 3]) =
     (Inr (),
      \<lparr>users = [(account 7 1)\<lparr>total_requests := 2, updated_at := 0\<rparr>],
        calls = [Get_user 7, Send_message 70 Processing_text,
                 ChatCompletion_create (codepoints ''hi''), Update_balance 7 (- 1),
                 Edit_message_text (Response_text (codepoints ''hello'') 2) 70 0]\<rparr>)
   \<and> map balance
        (accounts (users (snd (handle_text_message racing_debit hi (ledger [account 7 3]))))
           7) = [1]"
  by (simp add: handle_text_message_def handle_text_message_try_def hi_def strip_def
      codepoints_def py_isspace_def get_or_create_user_def get_user_ok racing_debit_def
      provider_says_hello_def alone_def ledger_def select_user_def account_def
      send_message_def record_call_def generate_response_def generate_response_try_def
      concurrently_def other_handler_debits_def ensure_sufficient_balance_def
      update_balance_ok update_users_def update_matches_def edit_message_text_def
      build_response_text_def accounts_def)

section \<open>A debit that fails after a completion\<close>

text \<open>
  Claim C6. When the completion succeeds and the debit returns \<open>False\<close>, the handler raises
  \<open>DatabaseError\<close>, catches it and replaces the processing message by the generic
  request-error text. No call of the run delivers the response, and the debit has changed
  nothing: the table is the one after account resolution plus the commits of other threads.
\<close>

theorem failed_debit_discards_response:
  assumes "strip (message_text m) \<noteq> []"
    and "get_or_create_user e w (from_user_id m) None None None = (Inr user, w1)"
    and "0 < balance user"
    and "generate_response_try (provider e (strip (message_text m))) = Inr response"
    and "ensure_sufficient_balance e (awaiting_debit e m w1) (from_user_id m) 1 = (Inr False, w4)"
  shows "handle_text_message e m w =
           (Inr (),
            w4\<lparr>calls := calls w4 @
                  [Edit_message_text Request_error_text (chat_id m) (processing_message_id e)]\<rparr>)
         \<and> \<not> list_ex delivers_response (calls_since w (snd (handle_text_message e m w)))
         \<and> users (snd (handle_text_message e m w)) = others_during_completion e (users w1)"
proof -
  from handler_completed [OF assms]
  have eq: "handle_text_message e m w =
           (Inr (),
            w4\<lparr>calls := calls w4 @
                  [Edit_message_text Request_error_text (chat_id m) (processing_message_id e)]\<rparr>)"
    by simp
  from get_or_create_user_calls [of e w "from_user_id m" None None None] assms(2)
  obtain cs where cs: "calls w1 = calls w @ cs" "list_all is_ledger_call cs"
    by auto
  from cs(2) have nr: "\<not> list_ex delivers_response cs"
    by (rule ledger_calls_deliver_nothing)
  from assms(5) have c4: "calls w4 = calls (awaiting_debit e m w1) @ [Update_balance (from_user_id m) (- 1)]"
    using update_balance_calls [of "update_balance_sqlite e" "update_time e"
        "awaiting_debit e m w1" "from_user_id m" "- 1"]
    by (simp add: ensure_sufficient_balance_def)
  from eq c4 cs(1) nr
  have 2: "\<not> list_ex delivers_response (calls_since w (snd (handle_text_message e m w)))"
    by (simp add: calls_since_def awaiting_debit_calls)
  from assms(5) have "users w4 = users (awaiting_debit e m w1)"
    by (simp add: ensure_sufficient_balance_def update_balance_not_applied)
  with eq have 3: "users (snd (handle_text_message e m w)) = others_during_completion e (users w1)"
    by (simp add: awaiting_debit_users)
  from eq 2 3 show ?thesis by blast
qed

theorem failed_debit_discards_response_witness:
  "strip (message_text hi) \<noteq> [] \<and>
   get_or_create_user racing_debit (ledger [account 7 1]) (from_user_id hi) None None None =
     (Inr (account 7 1), \<lparr>users = [account 7 1], calls = [Get_user 7]\<rparr>) \<and>
   0 < balance (account 7 1) \<and>
   generate_response_try (provider racing_debit (strip (message_text hi))) =
     Inr (codepoints ''hello'') \<and>
   ensure_sufficient_balance racing_debit
       (awaiting_debit racing_debit hi \<lparr>users = [account 7 1], calls = [Get_user 7]\<rparr>)
       (from_user_id hi) 1 =
     (Inr False,
      \<lparr>users = [(account 7 0)\<lparr>total_requests := 1, updated_at := 1\<rparr>],
        calls = [Get_user 7, Send_message 70 Processing_text,
                 ChatCompletion_create (codepoints ''hi''), Update_balance 7 (- 1)]\<rparr>) \<and>
   handle_text_message racing_debit hi (ledger [account 7 1]) =
     (Inr (),
      \<lparr>users = [(account 7 0)\<lparr>total_requests := 1, updated_at := 1\<rparr>],
        calls = [Get_user 7, Send_message 70 Processing_text,
                 ChatCompletion_create (codepoints ''hi''), Update_balance 7 (- 1),
                 Edit_message_text Request_error_text 70 0]\<rparr>)"
proof -
  have t: "strip (message_text hi) \<noteq> []"
    by (simp add: hi_def strip_hi)
  have g: "get_or_create_user racing_debit (ledger [account 7 1]) (from_user_id hi)
             None None None =
           (Inr (account 7 1), \<lparr>users = [account 7 1], calls = [Get_user 7]\<rparr>)"
    by (simp add: get_or_create_user_def get_user_ok racing_debit_def provider_says_hello_def
        alone_def ledger_def hi_def select_user_def account_def)
  have b: "0 < balance (account 7 1)"
    by (simp add: account_def)
  have r: "generate_response_try (provider racing_debit (strip (message_text hi))) =
             Inr (codepoints ''hello'')"
    by (simp add: racing_debit_def provider_says_hello_def alone_def generate_response_try_def
        strip_def codepoints_def py_isspace_def)
  have d: "ensure_sufficient_balance racing_debit
             (awaiting_debit racing_debit hi \<lparr>users = [account 7 1], calls = [Get_user 7]\<rparr>)
             (from_user_id hi) 1 =
           (Inr False,
            \<lparr>users = [(account 7 0)\<lparr>total_requests := 1, updated_at := 1\<rparr>],
              calls = [Get_user 7, Send_message 70 Processing_text,
                       ChatCompletion_create (codepoints ''hi''), Update_balance 7 (- 1)]\<rparr>)"
    by (simp add: ensure_sufficient_balance_def update_balance_ok awaiting_debit_def
        concurrently_def record_call_def send_message_def racing_debit_def
        provider_says_hello_def alone_def other_handler_debits_def ledger_def
        hi_def strip_def py_isspace_def codepoints_def update_users_def update_matches_def
        account_def)
  from failed_debit_discards_response [OF t g b r d] have
    "handle_text_message racing_debit hi (ledger [account 7 1]) =
       (Inr (),
        \<lparr>users = [(account 7 0)\<lparr>total_requests := 1, updated_at := 1\<rparr>],
          calls = [Get_user 7, Send_message 70 Processing_text,
                   ChatCompletion_create (codepoints ''hi''), Update_balance 7 (- 1),
                   Edit_message_text Request_error_text 70 0]\<rparr>)"
    by (simp add: hi_def racing_debit_def provider_says_hello_def alone_def account_def)
  with t g b r d show ?thesis by blast
qed

section \<open>A ledger error during account resolution\<close>

text \<open>
  Claim C8, evaluated on a run in which \<open>sqlite3.connect\<close> fails. \<open>get_user\<close> raises
  \<open>DatabaseError\<close>; the \<open>except DatabaseError\<close> clause of the handler reads
  \<open>processing_msg\<close>, which is assigned only after account resolution, so it raises
  \<open>UnboundLocalError\<close>, which leaves the handler, and the user receives no message.
  By \<open>handle_text_message_raises_iff\<close> this happens for exactly the ledger errors of
  account resolution; errors of the provider and of the debit are caught.
\<close>

theorem database_error_before_processing_message_escapes:
  "handle_text_message ledger_unavailable hi (ledger [account 7 3]) =
     (Inl UnboundLocalError, \<lparr>users = [account 7 3], calls = [Get_user 7]\<rparr>)"
proof -
  have t: "strip (message_text hi) \<noteq> []"
    by (simp add: hi_def strip_hi)
  have g: "get_or_create_user ledger_unavailable (ledger [account 7 3]) (from_user_id hi)
             None None None =
           (Inl Connection_failed, \<lparr>users = [account 7 3], calls = [Get_user 7]\<rparr>)"
    by (simp add: get_or_create_user_def get_user_def get_cursor_def record_call_def
        ledger_unavailable_def alone_def ledger_def hi_def)
  from handler_ledger_unavailable [OF t g] show ?thesis .
qed

end
